theory Spec2Isabelle
  imports Main
begin

section \<open>Provider documents and the Python operations applied to them\<close>

text \<open>
  The program is dynamically typed: \<^verbatim>\<open>PixivArtwork.__init__\<close> receives whatever
  \<^verbatim>\<open>response.json()\<close> produced and subscripts it. A document is therefore a value of
  \<open>json\<close>, and every Python operation the source applies to one is a function that
  returns the exception it raises as a value. An object is the Python \<^verbatim>\<open>dict\<close> the
  parser built, written as an association list whose first binding of a key is the one
  a lookup finds. Numbers with a fraction or an exponent are outside the model, and
  strings are read as ASCII.
\<close>

datatype json =
    JNull
  | JBool bool
  | JInt int
  | JStr string
  | JList "json list"
  | JDict "(string \<times> json) list"

text \<open>
  The exception classes that occur. \<open>ClientError\<close> stands for
  \<^verbatim>\<open>aiohttp.ClientError\<close> and its subclasses, \<open>TimeoutError\<close> for
  \<^verbatim>\<open>asyncio.TimeoutError\<close>, \<open>OtherError\<close> for any other class a transport may raise
  (a JSON decoding error, for one).
\<close>

datatype error =
    KeyError string
  | TypeError
  | ValueError
  | AttributeError
  | EOFError
  | ClientError
  | TimeoutError
  | OtherError string

text \<open>Sequencing of statements that may raise: the first exception ends the run.\<close>

definition ebind :: "error + 'a \<Rightarrow> ('a \<Rightarrow> error + 'b) \<Rightarrow> error + 'b" where
  "ebind m f = (case m of Inl e \<Rightarrow> Inl e | Inr x \<Rightarrow> f x)"

text \<open>A comprehension \<^verbatim>\<open>[f(d) for d in xs]\<close>: it stops at the first element that raises.\<close>

fun map_err :: "('a \<Rightarrow> error + 'b) \<Rightarrow> 'a list \<Rightarrow> error + 'b list" where
  "map_err f [] = Inr []"
| "map_err f (x # xs) =
     (case f x of
        Inl e \<Rightarrow> Inl e
      | Inr y \<Rightarrow> (case map_err f xs of Inl e \<Rightarrow> Inl e | Inr ys \<Rightarrow> Inr (y # ys)))"

text \<open>\<^verbatim>\<open>value[key]\<close> with a string key: only a dict can be subscripted by a string.\<close>

fun getitem :: "json \<Rightarrow> string \<Rightarrow> error + json" where
  "getitem (JDict m) k = (case map_of m k of None \<Rightarrow> Inl (KeyError k) | Some v \<Rightarrow> Inr v)"
| "getitem JNull k = Inl TypeError"
| "getitem (JBool b) k = Inl TypeError"
| "getitem (JInt n) k = Inl TypeError"
| "getitem (JStr s) k = Inl TypeError"
| "getitem (JList xs) k = Inl TypeError"

text \<open>\<^verbatim>\<open>isinstance(value, dict)\<close>.\<close>

fun is_dict :: "json \<Rightarrow> bool" where
  "is_dict (JDict m) = True"
| "is_dict JNull = False"
| "is_dict (JBool b) = False"
| "is_dict (JInt n) = False"
| "is_dict (JStr s) = False"
| "is_dict (JList xs) = False"

text \<open>\<^verbatim>\<open>bool(value)\<close>, also the test of an \<^verbatim>\<open>if\<close>.\<close>

fun truthy :: "json \<Rightarrow> bool" where
  "truthy JNull = False"
| "truthy (JBool b) = b"
| "truthy (JInt n) = (n \<noteq> 0)"
| "truthy (JStr s) = (s \<noteq> [])"
| "truthy (JList xs) = (xs \<noteq> [])"
| "truthy (JDict m) = (m \<noteq> [])"

text \<open>
  \<^verbatim>\<open>for d in value\<close>: a list yields its elements, a dict its keys, a string its
  characters; nothing else is iterable.
\<close>

fun py_iter :: "json \<Rightarrow> error + json list" where
  "py_iter (JList xs) = Inr xs"
| "py_iter (JDict m) = Inr (map (\<lambda>kv. JStr (fst kv)) m)"
| "py_iter (JStr s) = Inr (map (\<lambda>c. JStr [c]) s)"
| "py_iter JNull = Inl TypeError"
| "py_iter (JBool b) = Inl TypeError"
| "py_iter (JInt n) = Inl TypeError"

subsection \<open>Integers and their decimal text\<close>

definition digit_char :: "nat \<Rightarrow> char" where
  "digit_char d = ''0123456789abcdef'' ! d"

fun str_nat :: "nat \<Rightarrow> string" where
  "str_nat n = (if n < 10 then [digit_char n] else str_nat (n div 10) @ [digit_char (n mod 10)])"

declare str_nat.simps [simp del]

text \<open>\<^verbatim>\<open>str(i)\<close> and \<^verbatim>\<open>f"{i}"\<close> for an \<^verbatim>\<open>int\<close>.\<close>

definition str_int :: "int \<Rightarrow> string" where
  "str_int i = (if i < 0 then CHR ''-'' # str_nat (nat (- i)) else str_nat (nat i))"

definition is_space :: "char \<Rightarrow> bool" where
  "is_space c = (let n = (of_char c :: nat) in (9 \<le> n \<and> n \<le> 13) \<or> (28 \<le> n \<and> n \<le> 32))"

definition is_digit :: "char \<Rightarrow> bool" where
  "is_digit c = (let n = (of_char c :: nat) in 48 \<le> n \<and> n \<le> 57)"

definition digit_val :: "char \<Rightarrow> nat" where
  "digit_val c = of_char c - 48"

text \<open>
  The digits after the first one: an underscore is accepted only between two digits.
\<close>

fun parse_digits :: "nat \<Rightarrow> string \<Rightarrow> nat option" where
  "parse_digits acc [] = Some acc"
| "parse_digits acc (c # cs) =
     (if is_digit c then parse_digits (10 * acc + digit_val c) cs
      else if c = CHR ''_'' then
        (case cs of
           [] \<Rightarrow> None
         | d # ds \<Rightarrow> if is_digit d then parse_digits (10 * acc + digit_val d) ds else None)
      else None)"

text \<open>
  \<^verbatim>\<open>int(s)\<close> for a string, base ten: surrounding whitespace is dropped, one sign may
  lead, and at least one digit follows. \<open>None\<close> is Python's \<^verbatim>\<open>ValueError\<close>.
\<close>

definition int_of_string :: "string \<Rightarrow> int option" where
  "int_of_string s =
     (let t = rev (dropWhile is_space (rev (dropWhile is_space s)));
          neg = (case t of [] \<Rightarrow> False | c # r \<Rightarrow> c = CHR ''-'');
          u = (case t of [] \<Rightarrow> [] | c # r \<Rightarrow> if c = CHR ''-'' \<or> c = CHR ''+'' then r else t)
      in case u of
           [] \<Rightarrow> None
         | d # ds \<Rightarrow>
             if is_digit d
             then map_option (\<lambda>n. if neg then - int n else int n) (parse_digits (digit_val d) ds)
             else None)"

text \<open>\<^verbatim>\<open>int(value)\<close>.\<close>

fun py_int :: "json \<Rightarrow> error + int" where
  "py_int (JInt n) = Inr n"
| "py_int (JBool b) = Inr (if b then 1 else 0)"
| "py_int (JStr s) = (case int_of_string s of None \<Rightarrow> Inl ValueError | Some n \<Rightarrow> Inr n)"
| "py_int JNull = Inl TypeError"
| "py_int (JList xs) = Inl TypeError"
| "py_int (JDict m) = Inl TypeError"

subsection \<open>Text of a value\<close>

fun join :: "string \<Rightarrow> string list \<Rightarrow> string" where
  "join sep [] = []"
| "join sep [x] = x"
| "join sep (x # y # ys) = x @ sep @ join sep (y # ys)"

definition repr_quote :: "string \<Rightarrow> char" where
  "repr_quote s = (if CHR 0x27 \<in> set s \<and> CHR 0x22 \<notin> set s then CHR 0x22 else CHR 0x27)"

definition repr_char :: "char \<Rightarrow> char \<Rightarrow> string" where
  "repr_char q c =
     (if c = q \<or> c = CHR 0x5C then [CHR 0x5C, c]
      else if c = CHR 0x09 then [CHR 0x5C, CHR ''t'']
      else if c = CHR 0x0A then [CHR 0x5C, CHR ''n'']
      else if c = CHR 0x0D then [CHR 0x5C, CHR ''r'']
      else if (of_char c :: nat) < 32 \<or> (of_char c :: nat) = 127
        then [CHR 0x5C, CHR ''x'', digit_char (of_char c div 16), digit_char (of_char c mod 16)]
      else [c])"

definition repr_str :: "string \<Rightarrow> string" where
  "repr_str s = (let q = repr_quote s in q # concat (map (repr_char q) s) @ [q])"

text \<open>\<^verbatim>\<open>repr(value)\<close>, which \<^verbatim>\<open>str\<close> of a list or a dict applies to the members.\<close>

fun py_repr :: "json \<Rightarrow> string" where
  "py_repr JNull = ''None''"
| "py_repr (JBool b) = (if b then ''True'' else ''False'')"
| "py_repr (JInt n) = str_int n"
| "py_repr (JStr s) = repr_str s"
| "py_repr (JList xs) = ''['' @ join '', '' (map py_repr xs) @ '']''"
| "py_repr (JDict m) =
     ''{'' @ join '', '' (map (\<lambda>(k, v). repr_str k @ '': '' @ py_repr v) m) @ ''}''"

text \<open>\<^verbatim>\<open>str(value)\<close> and \<^verbatim>\<open>f"{value}"\<close>.\<close>

fun py_str :: "json \<Rightarrow> string" where
  "py_str (JStr s) = s"
| "py_str JNull = py_repr JNull"
| "py_str (JBool b) = py_repr (JBool b)"
| "py_str (JInt n) = py_repr (JInt n)"
| "py_str (JList xs) = py_repr (JList xs)"
| "py_str (JDict m) = py_repr (JDict m)"

section \<open>The value types of the package\<close>

text \<open>
  What \<^verbatim>\<open>datetime.fromisoformat\<close> returns. The parser itself belongs to the
  interpreter and changes with its version, so the functions below take it as the
  parameter \<open>fromisoformat\<close>, a function from the string to the timestamp, \<open>None\<close>
  where Python raises \<^verbatim>\<open>ValueError\<close>.
\<close>

record datetime =
  year :: int
  month :: int
  day :: int
  hour :: int
  minute :: int
  second :: int
  microsecond :: int
  utcoffset :: "int option"

text \<open>\<^verbatim>\<open>datetime.fromisoformat(value)\<close>: anything but a string is a \<^verbatim>\<open>TypeError\<close>.\<close>

fun py_fromisoformat :: "(string \<Rightarrow> datetime option) \<Rightarrow> json \<Rightarrow> error + datetime" where
  "py_fromisoformat fromisoformat (JStr s) =
     (case fromisoformat s of None \<Rightarrow> Inl ValueError | Some d \<Rightarrow> Inr d)"
| "py_fromisoformat fromisoformat JNull = Inl TypeError"
| "py_fromisoformat fromisoformat (JBool b) = Inl TypeError"
| "py_fromisoformat fromisoformat (JInt n) = Inl TypeError"
| "py_fromisoformat fromisoformat (JList xs) = Inl TypeError"
| "py_fromisoformat fromisoformat (JDict m) = Inl TypeError"

text \<open>
  Modelled from the spec: the class \<^verbatim>\<open>PartialUser\<close> of \<^verbatim>\<open>pixiv/user.py\<close>, which is
  not among the sources. The spec gives it an identifier and a display name, both
  taken as they come ("both required, no validation"), and a profile link derived
  from the identifier; the link's template is not given, so \<^verbatim>\<open>create_embed\<close>
  takes it as the parameter \<open>profile_link\<close>.
\<close>

record PartialUser =
  user_id :: json
  user_name :: json

definition PartialUser_init :: "json \<Rightarrow> json \<Rightarrow> PartialUser" where
  "PartialUser_init uid uname = \<lparr>user_id = uid, user_name = uname\<rparr>"

text \<open>
  Modelled from the spec: the class \<^verbatim>\<open>PixivArtworkTag\<close> of \<^verbatim>\<open>pixiv/tags.py\<close>, which
  is not among the sources. The spec builds it from a sub-document "containing at
  least a \<^verbatim>\<open>tag\<close> field and optionally a \<^verbatim>\<open>translated_name\<close> field", with no
  validation beyond the presence of \<^verbatim>\<open>tag\<close>, shows the translated name if present
  and the name otherwise, and derives a link from the name; the link's template is not
  given, so \<^verbatim>\<open>create_embed\<close> takes it as the parameter \<open>tag_link\<close>.
\<close>

record PixivArtworkTag =
  tag_name :: json
  translated_name :: "json option"

definition PixivArtworkTag_init :: "json \<Rightarrow> error + PixivArtworkTag" where
  "PixivArtworkTag_init d =
     ebind (getitem d ''tag'') (\<lambda>n.
       Inr \<lparr>tag_name = n,
            translated_name =
              (case getitem d ''translated_name'' of Inl e \<Rightarrow> None | Inr t \<Rightarrow> Some t)\<rparr>)"

definition tag_str :: "PixivArtworkTag \<Rightarrow> string" where
  "tag_str t = (case translated_name t of Some n \<Rightarrow> py_str n | None \<Rightarrow> py_str (tag_name t))"

section \<open>\<^verbatim>\<open>PixivArtwork\<close>\<close>

text \<open>
  The attribute \<^verbatim>\<open>tags\<close> holds either the \<^verbatim>\<open>PixivArtworkTag\<close> objects built from
  the nested form, or the document's value itself (the \<^verbatim>\<open>else\<close> branch stores
  \<^verbatim>\<open>data["tags"]\<close> as it is).
\<close>

datatype tag_list =
    Tags "PixivArtworkTag list"
  | RawTags json

record PixivArtwork =
  id' :: int
  title :: json
  author :: PartialUser
  nsfw :: bool
  created_at :: datetime
  tags :: tag_list
  width :: json
  height :: json
  pages_count :: json
  image_urls :: json

text \<open>\<^verbatim>\<open>PixivArtwork.__init__\<close>, statement by statement.\<close>

definition PixivArtwork_init ::
  "(string \<Rightarrow> datetime option) \<Rightarrow> json \<Rightarrow> error + PixivArtwork" where
  "PixivArtwork_init fromisoformat data =
     ebind (getitem data ''id'') (\<lambda>raw_id.
     ebind (py_int raw_id) (\<lambda>i.
     ebind (getitem data ''title'') (\<lambda>t.
     ebind (getitem data ''userId'') (\<lambda>uid.
     ebind (getitem data ''userName'') (\<lambda>uname.
     ebind (getitem data ''xRestrict'') (\<lambda>x.
     ebind (getitem data ''createDate'') (\<lambda>cd.
     ebind (py_fromisoformat fromisoformat cd) (\<lambda>created.
     ebind (getitem data ''tags'') (\<lambda>tg.
     ebind (if is_dict tg
            then ebind (getitem tg ''tags'') (\<lambda>nested.
                 ebind (py_iter nested) (\<lambda>ds.
                 ebind (map_err PixivArtworkTag_init ds) (\<lambda>ts. Inr (Tags ts))))
            else Inr (RawTags tg)) (\<lambda>tgs.
     ebind (getitem data ''width'') (\<lambda>w.
     ebind (getitem data ''height'') (\<lambda>h.
     ebind (getitem data ''pageCount'') (\<lambda>pc.
     ebind (getitem data ''urls'') (\<lambda>urls.
       Inr \<lparr>id' = i, title = t, author = PartialUser_init uid uname,
            nsfw = truthy x, created_at = created, tags = tgs, width = w, height = h,
            pages_count = pc, image_urls = urls\<rparr>))))))))))))))"

text \<open>The property \<^verbatim>\<open>url\<close>.\<close>

definition url :: "PixivArtwork \<Rightarrow> string" where
  "url a = ''https://www.pixiv.net/en/artworks/'' @ str_int (id' a)"

subsection \<open>Methods: the receiver and the console as state\<close>

text \<open>
  A method runs against its receiver and the process console. \<open>stdout\<close> is what has
  been written so far, \<open>stdin\<close> the lines the operator has still to type.
\<close>

record pystate =
  self :: PixivArtwork
  stdout :: "string list"
  stdin :: "string list"

definition py_print :: "string \<Rightarrow> pystate \<Rightarrow> pystate" where
  "py_print line s = s\<lparr>stdout := stdout s @ [line @ [CHR 0x0A]]\<rparr>"

text \<open>\<^verbatim>\<open>input(prompt)\<close>: the prompt is written, one line is read; no line left is \<^verbatim>\<open>EOFError\<close>.\<close>

definition py_input :: "string \<Rightarrow> pystate \<Rightarrow> (error + string) \<times> pystate" where
  "py_input prompt s =
     (let s1 = s\<lparr>stdout := stdout s @ [prompt]\<rparr>
      in case stdin s1 of
           [] \<Rightarrow> (Inl EOFError, s1)
         | l # ls \<Rightarrow> (Inr l, s1\<lparr>stdin := ls\<rparr>))"

definition get_image_url :: "pystate \<Rightarrow> (error + json) \<times> pystate" where
  "get_image_url s =
     (case getitem (image_urls (self s)) ''regular'' of
        Inl e \<Rightarrow> (Inl e, s)
      | Inr u \<Rightarrow>
          if u \<noteq> JNull then (Inr u, s)
          else
            (case py_input ''image URL>''
                    (py_print (''Cannot fetch image URL for artwork ''
                                 @ str_int (id' (self s))
                                 @ '', please enter it manually.'') s) of
               (Inl e, s') \<Rightarrow> (Inl e, s')
             | (Inr l, s') \<Rightarrow> (Inr (JStr l), s')))"

subsection \<open>The embed\<close>

text \<open>
  \<^verbatim>\<open>discord.Embed\<close> as far as \<^verbatim>\<open>create_embed\<close> uses it: the constructor keeps a
  title that is not \<^verbatim>\<open>None\<close> as its text, \<^verbatim>\<open>set_image\<close> stores the address and
  \<^verbatim>\<open>add_field\<close> appends a field with the text of its value, inline unless told
  otherwise.
\<close>

record EmbedField =
  field_name :: string
  field_value :: string
  field_inline :: bool

record Embed =
  embed_title :: "string option"
  embed_url :: string
  embed_color :: int
  embed_timestamp :: datetime
  embed_image :: "string option"
  embed_fields :: "EmbedField list"

definition Embed_init :: "json \<Rightarrow> string \<Rightarrow> int \<Rightarrow> datetime \<Rightarrow> Embed" where
  "Embed_init t u c ts =
     \<lparr>embed_title = (if t = JNull then None else Some (py_str t)), embed_url = u,
      embed_color = c, embed_timestamp = ts, embed_image = None, embed_fields = []\<rparr>"

definition set_image :: "string \<Rightarrow> Embed \<Rightarrow> Embed" where
  "set_image u e = e\<lparr>embed_image := Some u\<rparr>"

definition add_field :: "string \<Rightarrow> string \<Rightarrow> bool \<Rightarrow> Embed \<Rightarrow> Embed" where
  "add_field n v i e =
     e\<lparr>embed_fields := embed_fields e @ [\<lparr>field_name = n, field_value = v, field_inline = i\<rparr>]\<rparr>"

text \<open>\<^verbatim>\<open>if self.tags:\<close> on either form of the attribute.\<close>

fun tags_truthy :: "tag_list \<Rightarrow> bool" where
  "tags_truthy (Tags ts) = (ts \<noteq> [])"
| "tags_truthy (RawTags v) = truthy v"

text \<open>
  The generator \<^verbatim>\<open>f"[{str(tag)}]({tag.url})" for tag in self.tags\<close>. A
  \<^verbatim>\<open>PixivArtworkTag\<close> gives its text and its link. A value of the document has no
  attribute \<^verbatim>\<open>url\<close>: the first element raises \<^verbatim>\<open>AttributeError\<close>.
\<close>

fun tag_links :: "(json \<Rightarrow> string) \<Rightarrow> tag_list \<Rightarrow> error + string list" where
  "tag_links tag_link (Tags ts) =
     Inr (map (\<lambda>t. ''['' @ tag_str t @ ''](''  @ tag_link (tag_name t) @ '')'') ts)"
| "tag_links tag_link (RawTags v) =
     (case py_iter v of
        Inl e \<Rightarrow> Inl e
      | Inr [] \<Rightarrow> Inr []
      | Inr (x # xs) \<Rightarrow> Inl AttributeError)"

text \<open>\<^verbatim>\<open>escape(self.author.name)\<close>: the library's regular expressions take a string only.\<close>

fun py_escape :: "(string \<Rightarrow> string) \<Rightarrow> json \<Rightarrow> error + string" where
  "py_escape escape (JStr s) = Inr (escape s)"
| "py_escape escape JNull = Inl TypeError"
| "py_escape escape (JBool b) = Inl TypeError"
| "py_escape escape (JInt n) = Inl TypeError"
| "py_escape escape (JList xs) = Inl TypeError"
| "py_escape escape (JDict m) = Inl TypeError"

text \<open>
  \<^verbatim>\<open>PixivArtwork.create_embed\<close>. \<open>escape\<close> is \<^verbatim>\<open>discord.utils.escape_markdown\<close>,
  \<open>tag_link\<close> and \<open>profile_link\<close> are the link templates of the two classes that are
  not among the sources.
\<close>

definition create_embed ::
  "(string \<Rightarrow> string) \<Rightarrow> (json \<Rightarrow> string) \<Rightarrow> (json \<Rightarrow> string) \<Rightarrow> string \<Rightarrow> pystate
     \<Rightarrow> (error + Embed) \<times> pystate" where
  "create_embed escape tag_link profile_link attachment_name s =
     (let a = self s;
          embed0 = Embed_init (title a) (url a) 0x2ECC71 (created_at a);
          embed1 = set_image (''attachment://'' @ attachment_name) embed0
      in (ebind (if tags_truthy (tags a)
                 then ebind (tag_links tag_link (tags a)) (\<lambda>ls.
                        Inr (add_field ''Tags'' (join '', '' ls) False embed1))
                 else Inr embed1) (\<lambda>embed2.
          ebind (py_escape escape (user_name (author a))) (\<lambda>nm.
            Inr (add_field ''Artwork link'' (url a) False
                (add_field ''Pages count'' (py_str (pages_count a)) True
                (add_field ''Size'' (py_str (width a) @ '' x '' @ py_str (height a)) True
                (add_field ''Author''
                   (''['' @ nm @ ''](''  @ profile_link (user_id (author a)) @ '')'') True
                (add_field ''Artwork ID'' (str_int (id' a)) True embed2))))))),
          s))"

section \<open>The fetcher\<close>

text \<open>
  The transport is the \<^verbatim>\<open>session\<close> argument: a function from the address to what
  \<^verbatim>\<open>session.get\<close> does with it, an exception or a response. A response has its
  status and what \<^verbatim>\<open>await response.json(encoding="utf-8")\<close> gives, which is again an
  exception or the parsed document.
\<close>

record response =
  status :: int
  json_body :: "error + json"

text \<open>What \<^verbatim>\<open>contextlib.suppress(aiohttp.ClientError, asyncio.TimeoutError)\<close> swallows.\<close>

fun suppressed :: "error \<Rightarrow> bool" where
  "suppressed ClientError = True"
| "suppressed TimeoutError = True"
| "suppressed (KeyError k) = False"
| "suppressed TypeError = False"
| "suppressed ValueError = False"
| "suppressed AttributeError = False"
| "suppressed EOFError = False"
| "suppressed (OtherError n) = False"

text \<open>
  The \<^verbatim>\<open>with\<close> block: a swallowed exception leaves the block, and the function then
  ends without a \<^verbatim>\<open>return\<close>, which is \<^verbatim>\<open>None\<close>.
\<close>

definition suppress :: "error + 'a option \<Rightarrow> error + 'a option" where
  "suppress r = (case r of Inl e \<Rightarrow> if suppressed e then Inr None else Inl e | Inr x \<Rightarrow> Inr x)"

text \<open>\<^verbatim>\<open>PixivArtwork.get\<close>: \<open>Inr None\<close> is the return of \<^verbatim>\<open>None\<close>, \<open>Inl e\<close> a raised \<open>e\<close>.\<close>

definition get ::
  "(string \<Rightarrow> datetime option) \<Rightarrow> int \<Rightarrow> (string \<Rightarrow> error + response)
     \<Rightarrow> error + PixivArtwork option" where
  "get fromisoformat artwork_id session =
     suppress
       (ebind (session (''https://www.pixiv.net/ajax/illust/'' @ str_int artwork_id)) (\<lambda>resp.
          if status resp \<noteq> 200 then Inr None
          else
            ebind (json_body resp) (\<lambda>data.
            ebind (getitem data ''error'') (\<lambda>err.
              if truthy err then Inr None
              else
                ebind (getitem data ''body'') (\<lambda>body.
                ebind (PixivArtwork_init fromisoformat body) (\<lambda>a. Inr (Some a)))))))"

section \<open>Sample data\<close>

text \<open>
  The document of the specification's example, and its variant whose \<^verbatim>\<open>id\<close> is not a
  number.
\<close>

definition example_document :: json where
  "example_document =
     JDict [(''id'', JStr ''123''), (''title'', JStr ''Sunset''), (''userId'', JInt 5),
            (''userName'', JStr ''Ann''), (''xRestrict'', JInt 0),
            (''createDate'', JStr ''2023-01-01T00:00:00''),
            (''tags'', JList [JStr ''calm'', JStr ''sky'']),
            (''width'', JInt 800), (''height'', JInt 600), (''pageCount'', JInt 1),
            (''urls'', JDict [(''regular'', JStr ''http://x/img.png'')])]"



text \<open>The same artwork with its tags in the nested form.\<close>

definition nested_tags_document :: json where
  "nested_tags_document =
     JDict [(''id'', JInt 7), (''title'', JStr ''Sunset''), (''userId'', JInt 5),
            (''userName'', JStr ''Ann''), (''xRestrict'', JInt 1),
            (''createDate'', JStr ''2023-01-01T00:00:00''),
            (''tags'', JDict [(''tags'',
                JList [JDict [(''tag'', JStr ''calm''), (''translated_name'', JStr ''Calm'')],
                       JDict [(''tag'', JStr ''sky'')]])]),
            (''width'', JInt 800), (''height'', JInt 600), (''pageCount'', JInt 1),
            (''urls'', JDict [(''regular'', JNull)])]"

text \<open>
  An instance of the parser parameter for the closed examples: it reads the one
  timestamp of the example and rejects every other string.
\<close>

definition example_datetime :: datetime where
  "example_datetime =
     \<lparr>year = 2023, month = 1, day = 1, hour = 0, minute = 0, second = 0, microsecond = 0,
      utcoffset = None\<rparr>"

definition sample_fromisoformat :: "string \<Rightarrow> datetime option" where
  "sample_fromisoformat s =
     (if s = ''2023-01-01T00:00:00'' then Some example_datetime else None)"

definition example_artwork :: PixivArtwork where
  "example_artwork =
     \<lparr>id' = 123, title = JStr ''Sunset'',
      author = \<lparr>user_id = JInt 5, user_name = JStr ''Ann''\<rparr>, nsfw = False,
      created_at = example_datetime,
      tags = RawTags (JList [JStr ''calm'', JStr ''sky'']),
      width = JInt 800, height = JInt 600, pages_count = JInt 1,
      image_urls = JDict [(''regular'', JStr ''http://x/img.png'')]\<rparr>"

definition nested_artwork :: PixivArtwork where
  "nested_artwork =
     \<lparr>id' = 7, title = JStr ''Sunset'',
      author = \<lparr>user_id = JInt 5, user_name = JStr ''Ann''\<rparr>, nsfw = True,
      created_at = example_datetime,
      tags = Tags [\<lparr>tag_name = JStr ''calm'', translated_name = Some (JStr ''Calm'')\<rparr>,
                   \<lparr>tag_name = JStr ''sky'', translated_name = None\<rparr>],
      width = JInt 800, height = JInt 600, pages_count = JInt 1,
      image_urls = JDict [(''regular'', JNull)]\<rparr>"


section \<open>Basic facts\<close>

lemma ebind_Inl [simp]: "ebind (Inl e) f = Inl e"
  by (simp add: ebind_def)

lemma ebind_Inr [simp]: "ebind (Inr x) f = f x"
  by (simp add: ebind_def)

lemma ebind_eq_Inr: "ebind m f = Inr y \<longleftrightarrow> (\<exists>x. m = Inr x \<and> f x = Inr y)"
  by (cases m) simp_all

lemma ebind_eq_Inl: "ebind m f = Inl e \<longleftrightarrow> m = Inl e \<or> (\<exists>x. m = Inr x \<and> f x = Inl e)"
  by (cases m) simp_all

lemma int_of_string_123: "int_of_string ''123'' = Some 123"
  by code_simp


lemma str_int_123: "str_int 123 = ''123''"
  by code_simp

lemma map_err_Inr_iff:
  "map_err f xs = Inr ys \<longleftrightarrow> list_all2 (\<lambda>x y. f x = Inr y) xs ys"
proof (induction xs arbitrary: ys)
  case Nil
  then show ?case by auto
next
  case (Cons x xs)
  show ?case
  proof (cases "f x")
    case (Inl e)
    then show ?thesis by (auto simp: list_all2_Cons1)
  next
    case (Inr y)
    then show ?thesis
      by (cases "map_err f xs") (auto simp: list_all2_Cons1 Cons.IH [symmetric])
  qed
qed

lemma getitem_JDict_iff: "getitem d k = Inr v \<longleftrightarrow> (\<exists>m. d = JDict m \<and> map_of m k = Some v)"
  by (cases d) (auto split: option.splits)

lemma example_document_init:
  "PixivArtwork_init sample_fromisoformat example_document = Inr example_artwork"
  by (simp add: PixivArtwork_init_def example_document_def int_of_string_123
        sample_fromisoformat_def example_artwork_def PartialUser_init_def)

lemma nested_tags_document_init:
  "PixivArtwork_init sample_fromisoformat nested_tags_document = Inr nested_artwork"
  by (simp add: PixivArtwork_init_def nested_tags_document_def sample_fromisoformat_def
        nested_artwork_def PartialUser_init_def PixivArtworkTag_init_def)

text \<open>What a successful construction says about the document, statement by statement.\<close>

lemma PixivArtwork_init_Inr:
  assumes "PixivArtwork_init fromisoformat data = Inr a"
  obtains raw_id x cd tg where
    "getitem data ''id'' = Inr raw_id" "py_int raw_id = Inr (id' a)"
    "getitem data ''title'' = Inr (title a)"
    "getitem data ''userId'' = Inr (user_id (author a))"
    "getitem data ''userName'' = Inr (user_name (author a))"
    "getitem data ''xRestrict'' = Inr x" "nsfw a = truthy x"
    "getitem data ''createDate'' = Inr cd"
    "py_fromisoformat fromisoformat cd = Inr (created_at a)"
    "getitem data ''tags'' = Inr tg"
    "if is_dict tg
     then \<exists>nested ds ts. getitem tg ''tags'' = Inr nested \<and> py_iter nested = Inr ds
            \<and> map_err PixivArtworkTag_init ds = Inr ts \<and> tags a = Tags ts
     else tags a = RawTags tg"
    "getitem data ''width'' = Inr (width a)"
    "getitem data ''height'' = Inr (height a)"
    "getitem data ''pageCount'' = Inr (pages_count a)"
    "getitem data ''urls'' = Inr (image_urls a)"
  using assms
  by (auto simp: PixivArtwork_init_def ebind_eq_Inr PartialUser_init_def split: if_splits)

section \<open>Construction\<close>

text \<open>
  C7. The example document of the specification, given a parser that reads its
  timestamp: the artwork built from it is not flagged, keeps the two plain strings as
  its tags, and has the link \<^verbatim>\<open>https://www.pixiv.net/en/artworks/123\<close>.
\<close>

theorem example_document_artwork:
  assumes "fromisoformat ''2023-01-01T00:00:00'' = Some d"
  shows "\<exists>a. PixivArtwork_init fromisoformat example_document = Inr a \<and> nsfw a = False
           \<and> tags a = RawTags (JList [JStr ''calm'', JStr ''sky''])
           \<and> url a = ''https://www.pixiv.net/en/artworks/123''"
  using assms
  by (simp add: PixivArtwork_init_def example_document_def int_of_string_123 url_def str_int_123)

theorem example_document_artwork_witness:
  "\<exists>a. PixivArtwork_init sample_fromisoformat example_document = Inr a \<and> nsfw a = False
           \<and> tags a = RawTags (JList [JStr ''calm'', JStr ''sky''])
           \<and> url a = ''https://www.pixiv.net/en/artworks/123''"
  by (rule example_document_artwork [of sample_fromisoformat])
     (simp add: sample_fromisoformat_def)

text \<open>
  C8. For every document the construction accepts, \<^verbatim>\<open>nsfw\<close> is the truth value
  Python gives \<^verbatim>\<open>xRestrict\<close>; for an integer flag that is: true exactly when the flag is
  not zero.
\<close>

theorem nsfw_iff_xRestrict_nonzero:
  assumes "PixivArtwork_init fromisoformat data = Inr a"
  shows "\<exists>x. getitem data ''xRestrict'' = Inr x \<and> nsfw a = truthy x
           \<and> (\<forall>n. x = JInt n \<longrightarrow> (nsfw a \<longleftrightarrow> n \<noteq> 0))"
proof -
  from assms obtain x where "getitem data ''xRestrict'' = Inr x" "nsfw a = truthy x"
    by (rule PixivArtwork_init_Inr)
  then show ?thesis by auto
qed

theorem nsfw_iff_xRestrict_nonzero_witness:
  "getitem example_document ''xRestrict'' = Inr (JInt 0) \<and> nsfw example_artwork = False
   \<and> getitem nested_tags_document ''xRestrict'' = Inr (JInt 1) \<and> nsfw nested_artwork = True"
  using nsfw_iff_xRestrict_nonzero [OF example_document_init]
    nsfw_iff_xRestrict_nonzero [OF nested_tags_document_init]
  by (auto simp: example_document_def nested_tags_document_def)

text \<open>
  C5. For every document the construction accepts: when \<^verbatim>\<open>tags\<close> is an object with a
  list under its key \<^verbatim>\<open>tags\<close>, the artwork's tags are the \<^verbatim>\<open>PixivArtworkTag\<close> values
  built from the elements of that list, one by one and in order; when \<^verbatim>\<open>tags\<close> is not
  an object, the artwork's tags are that value itself, unchanged.
\<close>

theorem tags_polymorphic:
  assumes "PixivArtwork_init fromisoformat data = Inr a"
  shows "\<exists>tg. getitem data ''tags'' = Inr tg
           \<and> (\<forall>m xs. tg = JDict m \<and> map_of m ''tags'' = Some (JList xs) \<longrightarrow>
                 (\<exists>ts. tags a = Tags ts
                    \<and> list_all2 (\<lambda>d t. PixivArtworkTag_init d = Inr t) xs ts))
           \<and> (\<not> is_dict tg \<longrightarrow> tags a = RawTags tg)"
proof -
  from assms obtain tg where tg: "getitem data ''tags'' = Inr tg"
    and br: "if is_dict tg
       then \<exists>nested ds ts. getitem tg ''tags'' = Inr nested \<and> py_iter nested = Inr ds
              \<and> map_err PixivArtworkTag_init ds = Inr ts \<and> tags a = Tags ts
       else tags a = RawTags tg"
    by (rule PixivArtwork_init_Inr)
  have "\<exists>ts. tags a = Tags ts \<and> list_all2 (\<lambda>d t. PixivArtworkTag_init d = Inr t) xs ts"
    if "tg = JDict m" "map_of m ''tags'' = Some (JList xs)" for m xs
    using br that by (auto simp: map_err_Inr_iff)
  moreover have "tags a = RawTags tg" if "\<not> is_dict tg"
    using br that by simp
  ultimately show ?thesis using tg by blast
qed

theorem tags_polymorphic_witness:
  "tags nested_artwork =
     Tags [\<lparr>tag_name = JStr ''calm'', translated_name = Some (JStr ''Calm'')\<rparr>,
           \<lparr>tag_name = JStr ''sky'', translated_name = None\<rparr>]
   \<and> PixivArtworkTag_init (JDict [(''tag'', JStr ''sky'')])
       = Inr \<lparr>tag_name = JStr ''sky'', translated_name = None\<rparr>
   \<and> tags example_artwork = RawTags (JList [JStr ''calm'', JStr ''sky''])"
  using tags_polymorphic [OF nested_tags_document_init]
    tags_polymorphic [OF example_document_init]
  by (auto simp: example_document_def nested_tags_document_def PixivArtworkTag_init_def
        list_all2_Cons1)

section \<open>The image address\<close>

text \<open>
  C1. When \<^verbatim>\<open>image_urls\<close> maps \<^verbatim>\<open>"regular"\<close> to a value that is not null (a string, in
  a well-formed document), \<^verbatim>\<open>get_image_url\<close> returns that value and leaves the console
  as it was: nothing is printed and no line is read. When it maps \<^verbatim>\<open>"regular"\<close> to null
  and the operator types a line, the message and the prompt are written, that line is
  consumed, and the line is what the method returns.
\<close>

theorem get_image_url_regular:
  assumes "image_urls (self s) = JDict m"
  shows "(map_of m ''regular'' = Some v \<and> v \<noteq> JNull \<longrightarrow> get_image_url s = (Inr v, s))
       \<and> (map_of m ''regular'' = Some JNull \<and> stdin s = l # ls \<longrightarrow>
            get_image_url s =
              (Inr (JStr l),
               s\<lparr>stdout := stdout s @
                    [''Cannot fetch image URL for artwork '' @ str_int (id' (self s))
                       @ '', please enter it manually.'' @ [CHR 0x0A],
                     ''image URL>''],
                 stdin := ls\<rparr>))"
  using assms
  by (simp add: get_image_url_def py_input_def py_print_def)

theorem get_image_url_regular_witness:
  "get_image_url \<lparr>self = example_artwork, stdout = [], stdin = [''http://y/z.png'']\<rparr>
     = (Inr (JStr ''http://x/img.png''),
        \<lparr>self = example_artwork, stdout = [], stdin = [''http://y/z.png'']\<rparr>)
   \<and> get_image_url \<lparr>self = nested_artwork, stdout = [], stdin = [''http://y/z.png'']\<rparr>
     = (Inr (JStr ''http://y/z.png''),
        \<lparr>self = nested_artwork,
         stdout = [''Cannot fetch image URL for artwork 7, please enter it manually.''
                     @ [CHR 0x0A], ''image URL>''],
         stdin = []\<rparr>)"
proof -
  have seven: "str_int 7 = ''7''"
    by code_simp
  show ?thesis
    using get_image_url_regular
        [of "\<lparr>self = example_artwork, stdout = [], stdin = [''http://y/z.png'']\<rparr>"
          "[(''regular'', JStr ''http://x/img.png'')]" "JStr ''http://x/img.png''"]
      get_image_url_regular
        [of "\<lparr>self = nested_artwork, stdout = [], stdin = [''http://y/z.png'']\<rparr>"
          "[(''regular'', JNull)]" _ "''http://y/z.png''" "[]"]
    by (simp add: example_artwork_def nested_artwork_def seven)
qed

lemma pystate_stdout_neq: "stdout s' \<noteq> stdout s \<Longrightarrow> s' \<noteq> s"
  by auto

lemma get_image_url_fallback_stdout:
  assumes "getitem (image_urls (self s)) ''regular'' = Inr JNull"
  shows "stdout (snd (get_image_url s)) =
           stdout s @ [''Cannot fetch image URL for artwork '' @ str_int (id' (self s))
                         @ '', please enter it manually.'' @ [CHR 0x0A], ''image URL>'']"
  using assms
  by (simp add: get_image_url_def py_input_def py_print_def Let_def split: list.splits)

lemma get_image_url_no_fallback:
  assumes "getitem (image_urls (self s)) ''regular'' \<noteq> Inr JNull"
  shows "snd (get_image_url s) = s"
  using assms
  by (simp add: get_image_url_def split: sum.splits)

text \<open>
  C10. When \<^verbatim>\<open>image_urls\<close> has no key \<^verbatim>\<open>"regular"\<close>, \<^verbatim>\<open>get_image_url\<close> raises
  \<^verbatim>\<open>KeyError\<close> for that key and the console is untouched. The console changes, that is
  the fallback runs, exactly when the lookup of \<^verbatim>\<open>"regular"\<close> succeeds with null.
\<close>

theorem get_image_url_missing_key:
  "(image_urls (self s) = JDict m \<and> map_of m ''regular'' = None \<longrightarrow>
      get_image_url s = (Inl (KeyError ''regular''), s))
   \<and> (snd (get_image_url s) \<noteq> s \<longleftrightarrow> getitem (image_urls (self s)) ''regular'' = Inr JNull)"
proof -
  have "get_image_url s = (Inl (KeyError ''regular''), s)"
    if "image_urls (self s) = JDict m" "map_of m ''regular'' = None"
    using that by (simp add: get_image_url_def)
  moreover have "snd (get_image_url s) \<noteq> s"
    if "getitem (image_urls (self s)) ''regular'' = Inr JNull"
    using get_image_url_fallback_stdout [OF that] by (intro pystate_stdout_neq) simp
  moreover have "snd (get_image_url s) = s"
    if "getitem (image_urls (self s)) ''regular'' \<noteq> Inr JNull"
    using that by (rule get_image_url_no_fallback)
  ultimately show ?thesis by blast
qed

theorem get_image_url_missing_key_witness:
  "get_image_url
     \<lparr>self = example_artwork\<lparr>image_urls := JDict [(''thumb'', JStr ''http://x/t.png'')]\<rparr>,
      stdout = [], stdin = [''http://y/z.png'']\<rparr>
   = (Inl (KeyError ''regular''),
      \<lparr>self = example_artwork\<lparr>image_urls := JDict [(''thumb'', JStr ''http://x/t.png'')]\<rparr>,
       stdout = [], stdin = [''http://y/z.png'']\<rparr>)"
  using get_image_url_missing_key
      [of "\<lparr>self = example_artwork\<lparr>image_urls := JDict [(''thumb'', JStr ''http://x/t.png'')]\<rparr>,
            stdout = [], stdin = [''http://y/z.png'']\<rparr>"
        "[(''thumb'', JStr ''http://x/t.png'')]"]
  by simp

section \<open>The message payload\<close>



section \<open>The fetcher\<close>

lemma getitem_not_suppressed: "getitem d k = Inl e \<Longrightarrow> \<not> suppressed e"
  by (cases d) (auto split: option.splits)

lemma py_int_not_suppressed: "py_int v = Inl e \<Longrightarrow> \<not> suppressed e"
  by (cases v) (auto split: option.splits)

lemma py_fromisoformat_not_suppressed: "py_fromisoformat f v = Inl e \<Longrightarrow> \<not> suppressed e"
  by (cases v) (auto split: option.splits)

lemma py_iter_not_suppressed: "py_iter v = Inl e \<Longrightarrow> \<not> suppressed e"
  by (cases v) auto

lemma PixivArtworkTag_init_not_suppressed: "PixivArtworkTag_init d = Inl e \<Longrightarrow> \<not> suppressed e"
  by (auto simp: PixivArtworkTag_init_def ebind_eq_Inl dest: getitem_not_suppressed)

lemma map_err_not_suppressed:
  assumes "\<And>x e. f x = Inl e \<Longrightarrow> \<not> suppressed e"
  shows "map_err f xs = Inl e \<Longrightarrow> \<not> suppressed e"
proof (induction xs arbitrary: e)
  case Nil
  then show ?case by simp
next
  case (Cons x xs)
  then show ?case using assms
    by (auto split: sum.splits)
qed

lemma map_err_tag_not_suppressed:
  "map_err PixivArtworkTag_init ds = Inl e \<Longrightarrow> \<not> suppressed e"
  by (erule map_err_not_suppressed [rotated]) (rule PixivArtworkTag_init_not_suppressed)

text \<open>No exception of the construction is one that the \<^verbatim>\<open>with\<close> block swallows.\<close>

lemma PixivArtwork_init_not_suppressed:
  assumes "PixivArtwork_init fromisoformat data = Inl e"
  shows "\<not> suppressed e"
  using assms
  by (auto simp: PixivArtwork_init_def ebind_eq_Inl split: if_splits
        dest: getitem_not_suppressed py_int_not_suppressed py_fromisoformat_not_suppressed
          py_iter_not_suppressed map_err_tag_not_suppressed)

text \<open>
  C2. \<^verbatim>\<open>get\<close> returns \<^verbatim>\<open>None\<close> in exactly these cases: the transport raises a client or
  timeout error, on the request or while the body of a 200 response is read; the
  status is not 200; the body of a 200 response has a truthy \<^verbatim>\<open>error\<close> member.
\<close>

theorem get_None_iff:
  "get fromisoformat artwork_id session = Inr None \<longleftrightarrow>
     (\<exists>e. suppressed e \<and> session (''https://www.pixiv.net/ajax/illust/'' @ str_int artwork_id) = Inl e)
     \<or> (\<exists>r. session (''https://www.pixiv.net/ajax/illust/'' @ str_int artwork_id) = Inr r
           \<and> (status r \<noteq> 200
                \<or> (\<exists>e. suppressed e \<and> json_body r = Inl e)
                \<or> (\<exists>data err. json_body r = Inr data \<and> getitem data ''error'' = Inr err
                      \<and> truthy err)))"
proof (cases "session (''https://www.pixiv.net/ajax/illust/'' @ str_int artwork_id)")
  case (Inl e)
  then show ?thesis by (auto simp: get_def suppress_def)
next
  case (Inr r)
  show ?thesis
  proof (cases "status r = 200")
    case False
    with Inr show ?thesis by (simp add: get_def suppress_def)
  next
    case ok: True
    show ?thesis
    proof (cases "json_body r")
      case (Inl e)
      with Inr ok show ?thesis by (auto simp: get_def suppress_def)
    next
      case data: (Inr data)
      show ?thesis
      proof (cases "getitem data ''error''")
        case (Inl e)
        with Inr ok data getitem_not_suppressed [OF Inl] show ?thesis
          by (auto simp: get_def suppress_def)
      next
        case err: (Inr err)
        show ?thesis
        proof (cases "truthy err")
          case True
          with Inr ok data err show ?thesis by (auto simp: get_def suppress_def)
        next
          case False
          show ?thesis
          proof (cases "getitem data ''body''")
            case (Inl e)
            with Inr ok data err False getitem_not_suppressed [OF Inl] show ?thesis
              by (auto simp: get_def suppress_def)
          next
            case body: (Inr body)
            show ?thesis
            proof (cases "PixivArtwork_init fromisoformat body")
              case (Inl e)
              with Inr ok data err False body PixivArtwork_init_not_suppressed [OF Inl]
              show ?thesis by (auto simp: get_def suppress_def)
            next
              case a: (Inr a)
              with Inr ok data err False body show ?thesis
                by (auto simp: get_def suppress_def)
            qed
          qed
        qed
      qed
    qed
  qed
qed

theorem get_None_iff_witness:
  "get sample_fromisoformat 123
     (\<lambda>u. Inr \<lparr>status = 404, json_body = Inr (JDict [(''error'', JBool True)])\<rparr>) = Inr None
   \<and> get sample_fromisoformat 123 (\<lambda>u. Inl TimeoutError) = Inr None
   \<and> get sample_fromisoformat 123
       (\<lambda>u. Inr \<lparr>status = 200, json_body = Inr (JDict [(''error'', JBool True)])\<rparr>) = Inr None"
  using get_None_iff [of sample_fromisoformat 123
      "\<lambda>u. Inr \<lparr>status = 404, json_body = Inr (JDict [(''error'', JBool True)])\<rparr>"]
    get_None_iff [of sample_fromisoformat 123 "\<lambda>u. Inl TimeoutError"]
    get_None_iff [of sample_fromisoformat 123
      "\<lambda>u. Inr \<lparr>status = 200, json_body = Inr (JDict [(''error'', JBool True)])\<rparr>"]
  by simp

text \<open>
  C3. On a 200 response whose \<^verbatim>\<open>error\<close> member is falsy, \<^verbatim>\<open>get\<close> is the construction
  on the \<^verbatim>\<open>body\<close> member: its artwork is returned, its exception is raised to the
  caller, and in neither case is the result \<^verbatim>\<open>None\<close>.
\<close>

theorem get_delegates_to_init:
  assumes "session (''https://www.pixiv.net/ajax/illust/'' @ str_int artwork_id) = Inr r"
    and "status r = 200"
    and "json_body r = Inr data"
    and "getitem data ''error'' = Inr err"
    and "\<not> truthy err"
    and "getitem data ''body'' = Inr body"
  shows "get fromisoformat artwork_id session =
           (case PixivArtwork_init fromisoformat body of
              Inl e \<Rightarrow> Inl e
            | Inr a \<Rightarrow> Inr (Some a))
         \<and> get fromisoformat artwork_id session \<noteq> Inr None"
proof (cases "PixivArtwork_init fromisoformat body")
  case (Inl e)
  with assms PixivArtwork_init_not_suppressed [OF Inl] show ?thesis
    by (simp add: get_def suppress_def)
next
  case (Inr a)
  with assms show ?thesis
    by (simp add: get_def suppress_def)
qed

theorem get_delegates_to_init_witness:
  "get sample_fromisoformat 123
     (\<lambda>u. Inr \<lparr>status = 200,
                json_body = Inr (JDict [(''error'', JBool False),
                                        (''body'', JDict [(''id'', JStr ''123'')])])\<rparr>)
     = Inl (KeyError ''title'')
   \<and> get sample_fromisoformat 123
     (\<lambda>u. Inr \<lparr>status = 200,
                json_body = Inr (JDict [(''error'', JBool False),
                                        (''body'', example_document)])\<rparr>)
     = Inr (Some example_artwork)"
proof -
  have "PixivArtwork_init sample_fromisoformat (JDict [(''id'', JStr ''123'')])
          = Inl (KeyError ''title'')"
    by (simp add: PixivArtwork_init_def int_of_string_123)
  then show ?thesis
    using get_delegates_to_init [of
        "\<lambda>u. Inr \<lparr>status = 200,
                json_body = Inr (JDict [(''error'', JBool False),
                                        (''body'', JDict [(''id'', JStr ''123'')])])\<rparr>"
        123 _ _ "JBool False" "JDict [(''id'', JStr ''123'')]" sample_fromisoformat]
      get_delegates_to_init [of
        "\<lambda>u. Inr \<lparr>status = 200,
                json_body = Inr (JDict [(''error'', JBool False),
                                        (''body'', example_document)])\<rparr>"
        123 _ _ "JBool False" example_document sample_fromisoformat]
    by (simp add: example_document_init)
qed

section \<open>The fields of the payload\<close>

text \<open>
  Whenever \<^verbatim>\<open>create_embed\<close> returns an embed, its fields are, in this order, the tags
  (present exactly when the tags are truthy), the identifier, the author, the size, the
  page count and the link.
\<close>

lemma create_embed_field_names:
  assumes "fst (create_embed escape tag_link profile_link n s) = Inr e"
  shows "map field_name (embed_fields e) =
           (if tags_truthy (tags (self s)) then [''Tags''] else [])
             @ [''Artwork ID'', ''Author'', ''Size'', ''Pages count'', ''Artwork link'']"
  using assms
  by (auto simp: create_embed_def Let_def ebind_eq_Inr add_field_def set_image_def
        Embed_init_def split: if_splits)

text \<open>It does return one when the tags are \<^verbatim>\<open>PixivArtworkTag\<close> objects and the author's
  name is a string.\<close>

lemma create_embed_Tags:
  assumes "tags (self s) = Tags ts" and "user_name (author (self s)) = JStr nm"
  shows "\<exists>e. fst (create_embed escape tag_link profile_link n s) = Inr e"
  using assms
  by (simp add: create_embed_def Let_def)

text \<open>
  C4. The artwork built from the example document has a non-empty list of plain
  strings as its tags, the form \<^verbatim>\<open>__init__\<close> stores in its \<^verbatim>\<open>else\<close> branch and the
  class declares (\<^verbatim>\<open>Union[List[str], List[PixivArtworkTag]]\<close>). On it
  \<^verbatim>\<open>create_embed\<close> returns no payload at all: reading \<^verbatim>\<open>tag.url\<close> of a string raises
  \<^verbatim>\<open>AttributeError\<close>, whatever the attachment name, the console and the library
  functions are.
\<close>

theorem create_embed_flat_tags_raises:
  "PixivArtwork_init sample_fromisoformat example_document = Inr example_artwork
   \<and> tags_truthy (tags example_artwork)
   \<and> fst (create_embed escape tag_link profile_link n
            \<lparr>self = example_artwork, stdout = out, stdin = inp\<rparr>) = Inl AttributeError"
  by (simp add: example_document_init) (simp add: create_embed_def example_artwork_def)

theorem create_embed_flat_tags_raises_witness:
  "fst (create_embed (\<lambda>x. x) py_str py_str ''image.png''
          \<lparr>self = example_artwork, stdout = [], stdin = []\<rparr>) = Inl AttributeError"
  using create_embed_flat_tags_raises
      [where escape = "\<lambda>x. x" and tag_link = py_str and profile_link = py_str
         and n = "''image.png''" and out = "[]" and inp = "[]"]
  by simp

section \<open>Failures of the construction\<close>












end
